theory Spec2Isabelle
  imports Complex_Main
begin

section \<open>Values, exceptions and the library\<close>

text \<open>
  The reward function of \<^verbatim>\<open>trinity/plugins/loan_rewards.py\<close> works on whatever
  \<^verbatim>\<open>json.loads\<close> returns (or on an object handed in already parsed). A value is a
  mapping, a list, a text, a number, a truth value or \<^verbatim>\<open>None\<close>. A mapping is an
  association list in insertion order (a \<^verbatim>\<open>dict\<close> has no duplicate keys; lookup takes
  the first entry). A text is a list of bytes.

  Python's \<^verbatim>\<open>float\<close> is modelled by \<^typ>\<open>real\<close>. Sums, products, quotients and
  comparisons are exact, where the code rounds every result to a double: a test that the
  exact value decides by less than the rounding error can come out differently in the
  code. Such tests are the tolerances of the DTI check and the band thresholds, and the
  statements below that depend on them keep away from those values. The conversion of an
  integer, the power of line 201 and the sum \<^verbatim>\<open>1 + interest_rate\<close> are modelled with the
  double range and precision, since exceptions depend on them. Infinities and NaN (from
  \<^verbatim>\<open>json.loads\<close> or from a product beyond the double range) are not modelled.
\<close>

datatype json =
    JNull
  | JBool bool
  | JInt int
  | JFloat real
  | JStr string
  | JList "json list"
  | JDict "(string \<times> json) list"

datatype exn =
    JSONDecodeError
  | KeyError
  | TypeError
  | ValueError
  | AttributeError
  | ZeroDivisionError
  | UnboundLocalError
  | OverflowError

text \<open>
  What the code calls from Python's library on texts is a parameter of the model:
  \<^item> \<open>sub_fences\<close>: the two \<^verbatim>\<open>re.sub\<close> calls that strip the Markdown fences;
  \<^item> \<open>json_loads\<close>: \<^verbatim>\<open>json.loads\<close>, \<open>None\<close> where it raises \<^verbatim>\<open>JSONDecodeError\<close>;
  \<^item> \<open>float_of_str\<close>, \<open>int_of_str\<close>: \<^verbatim>\<open>float(s)\<close> and \<^verbatim>\<open>int(s)\<close> of a text,
    \<open>None\<close> where they raise \<^verbatim>\<open>ValueError\<close>;
  \<^item> \<open>repr_of\<close>: \<^verbatim>\<open>str(v)\<close> of a value that is not a text;
  \<^item> \<open>str_upper\<close>, \<open>str_lower\<close>: \<^verbatim>\<open>s.upper()\<close> and \<^verbatim>\<open>s.lower()\<close>.
\<close>

record pylib =
  sub_fences :: "string \<Rightarrow> string"
  json_loads :: "string \<Rightarrow> json option"
  float_of_str :: "string \<Rightarrow> real option"
  int_of_str :: "string \<Rightarrow> int option"
  repr_of :: "json \<Rightarrow> string"
  str_upper :: "string \<Rightarrow> string"
  str_lower :: "string \<Rightarrow> string"

text \<open>Sequencing of calls that may raise: the first exception wins.\<close>

definition andthen :: "exn + 'a \<Rightarrow> ('a \<Rightarrow> exn + 'b) \<Rightarrow> exn + 'b" where
  "andthen m k = (case m of Inl e \<Rightarrow> Inl e | Inr v \<Rightarrow> k v)"

text \<open>
  Inside a \<^verbatim>\<open>try\<close> block that accumulates \<^verbatim>\<open>score\<close>, the handler returns the
  score reached when the exception was raised. A block evaluates to the score at its end
  together with the exception that ended it, if any.
\<close>

definition attempt ::
  "real \<Rightarrow> exn + 'a \<Rightarrow> ('a \<Rightarrow> real \<times> exn option) \<Rightarrow> real \<times> exn option" where
  "attempt score m k = (case m of Inl e \<Rightarrow> (score, Some e) | Inr v \<Rightarrow> k v)"

subsection \<open>Python's operations on values\<close>

fun starts_with :: "string \<Rightarrow> string \<Rightarrow> bool" where
  "starts_with [] s = True"
| "starts_with (p # ps) [] = False"
| "starts_with (p # ps) (c # cs) = (p = c \<and> starts_with ps cs)"

text \<open>\<^verbatim>\<open>p in s\<close> for two texts.\<close>

fun substring :: "string \<Rightarrow> string \<Rightarrow> bool" where
  "substring p [] = (p = [])"
| "substring p (c # cs) = (starts_with p (c # cs) \<or> substring p cs)"

text \<open>
  \<^verbatim>\<open>k in v\<close> for a text \<open>k\<close>: key membership in a mapping, element membership in a
  list, substring test in a text, \<^verbatim>\<open>TypeError\<close> on a number, a truth value or
  \<^verbatim>\<open>None\<close>.
\<close>

fun py_in :: "string \<Rightarrow> json \<Rightarrow> exn + bool" where
  "py_in k (JDict d) = Inr (k \<in> set (map fst d))"
| "py_in k (JList xs) = Inr (JStr k \<in> set xs)"
| "py_in k (JStr s) = Inr (substring k s)"
| "py_in k v = Inl TypeError"

text \<open>\<^verbatim>\<open>v.get(k, default)\<close>: only a mapping has the method.\<close>

fun py_get :: "json \<Rightarrow> string \<Rightarrow> json \<Rightarrow> exn + json" where
  "py_get (JDict d) k dflt = Inr (case map_of d k of Some v \<Rightarrow> v | None \<Rightarrow> dflt)"
| "py_get v k dflt = Inl AttributeError"

text \<open>\<^verbatim>\<open>v[k]\<close> with a text \<open>k\<close>.\<close>

fun py_index :: "json \<Rightarrow> string \<Rightarrow> exn + json" where
  "py_index (JDict d) k = (case map_of d k of Some v \<Rightarrow> Inr v | None \<Rightarrow> Inl KeyError)"
| "py_index v k = Inl TypeError"

text \<open>
  \<^verbatim>\<open>float(i)\<close> of an integer: exact up to \<open>2^53\<close>, rounded to 53 significant bits
  (to nearest, ties to even) above, and \<^verbatim>\<open>OverflowError\<close> (\<open>None\<close>) from
  \<open>2^1024 - 2^970\<close> on, where the rounded value would leave the double range.
\<close>

function bit_length :: "int \<Rightarrow> nat" where
  "bit_length n = (if n \<le> 0 then 0 else Suc (bit_length (n div 2)))"
  by pat_completeness auto
termination
  by (relation "measure nat") auto

definition round_to_double :: "int \<Rightarrow> int" where
  "round_to_double m =
     (let e = bit_length m - 53;
          q = m div 2 ^ e;
          r = m mod 2 ^ e
      in (if 2 * r > 2 ^ e \<or> (2 * r = 2 ^ e \<and> odd q) then q + 1 else q) * 2 ^ e)"

definition float_of_int :: "int \<Rightarrow> real option" where
  "float_of_int i =
     (if \<bar>i\<bar> \<le> 2 ^ 53 then Some (of_int i)
      else if 2 ^ 1024 - 2 ^ 970 \<le> \<bar>i\<bar> then None
      else Some (of_int (sgn i * round_to_double \<bar>i\<bar>)))"

text \<open>\<^verbatim>\<open>float(v)\<close>; \<^verbatim>\<open>bool\<close> is a subclass of \<^verbatim>\<open>int\<close>.\<close>

fun py_float :: "pylib \<Rightarrow> json \<Rightarrow> exn + real" where
  "py_float L (JInt i) =
     (case float_of_int i of None \<Rightarrow> Inl OverflowError | Some r \<Rightarrow> Inr r)"
| "py_float L (JFloat r) = Inr r"
| "py_float L (JBool b) = Inr (if b then 1 else 0)"
| "py_float L (JStr s) =
     (case float_of_str L s of None \<Rightarrow> Inl ValueError | Some r \<Rightarrow> Inr r)"
| "py_float L v = Inl TypeError"

text \<open>\<^verbatim>\<open>int(v)\<close>; a float is truncated towards zero.\<close>

definition trunc :: "real \<Rightarrow> int" where
  "trunc r = (if 0 \<le> r then \<lfloor>r\<rfloor> else \<lceil>r\<rceil>)"

fun py_int :: "pylib \<Rightarrow> json \<Rightarrow> exn + int" where
  "py_int L (JInt i) = Inr i"
| "py_int L (JFloat r) = Inr (trunc r)"
| "py_int L (JBool b) = Inr (if b then 1 else 0)"
| "py_int L (JStr s) =
     (case int_of_str L s of None \<Rightarrow> Inl ValueError | Some i \<Rightarrow> Inr i)"
| "py_int L v = Inl TypeError"

text \<open>\<^verbatim>\<open>v.lower()\<close> and \<^verbatim>\<open>v.upper()\<close>: only a text has the methods.\<close>

fun py_lower :: "pylib \<Rightarrow> json \<Rightarrow> exn + string" where
  "py_lower L (JStr s) = Inr (str_lower L s)"
| "py_lower L v = Inl AttributeError"

fun py_upper :: "pylib \<Rightarrow> json \<Rightarrow> exn + string" where
  "py_upper L (JStr s) = Inr (str_upper L s)"
| "py_upper L v = Inl AttributeError"

text \<open>\<^verbatim>\<open>str(v)\<close>.\<close>

fun py_str :: "pylib \<Rightarrow> json \<Rightarrow> string" where
  "py_str L (JStr s) = s"
| "py_str L v = repr_of L v"

text \<open>\<^verbatim>\<open>isinstance(v, (int, float))\<close>, \<^verbatim>\<open>isinstance(v, dict)\<close>, \<^verbatim>\<open>isinstance(v, list)\<close>.\<close>

fun is_number :: "json \<Rightarrow> bool" where
  "is_number (JInt i) = True"
| "is_number (JFloat r) = True"
| "is_number (JBool b) = True"
| "is_number v = False"

fun is_dict :: "json \<Rightarrow> bool" where
  "is_dict (JDict d) = True"
| "is_dict v = False"

text \<open>The value of a number in comparisons.\<close>

fun num_val :: "json \<Rightarrow> real" where
  "num_val (JInt i) = of_int i"
| "num_val (JFloat r) = r"
| "num_val (JBool b) = (if b then 1 else 0)"
| "num_val v = 0"

definition py_div :: "real \<Rightarrow> real \<Rightarrow> exn + real" where
  "py_div a b = (if b = 0 then Inl ZeroDivisionError else Inr (a / b))"

text \<open>
  \<^verbatim>\<open>1 + r\<close> for a positive double \<open>r\<close>: the sum is rounded to \<open>1\<close> when \<open>r\<close> is at
  most \<open>2^-53\<close>.
\<close>

definition one_plus :: "real \<Rightarrow> real" where
  "one_plus r = (if r \<le> 1 / 2 ^ 53 then 1 else 1 + r)"

text \<open>
  \<^verbatim>\<open>b ** n\<close> for a float \<open>b\<close> and a positive integer \<open>n\<close>: the exponent is converted
  to a float first, and a power beyond the double range raises \<^verbatim>\<open>OverflowError\<close>.
\<close>

definition py_pow :: "real \<Rightarrow> int \<Rightarrow> exn + real" where
  "py_pow b n =
     (case float_of_int n of
        None \<Rightarrow> Inl OverflowError
      | Some m \<Rightarrow>
          if 2 ^ 1024 - 2 ^ 970 \<le> b ^ nat \<lfloor>m\<rfloor> then Inl OverflowError
          else Inr (b ^ nat \<lfloor>m\<rfloor>))"

section \<open>The structure check\<close>

text \<open>\<^verbatim>\<open>_check_structure\<close>: the three loops and the final cap.\<close>

fun top_level_fields :: "string list \<Rightarrow> json \<Rightarrow> real \<Rightarrow> exn + real" where
  "top_level_fields [] response_data score = Inr score"
| "top_level_fields (field # rest) response_data score =
     (case py_in field response_data of
        Inl e \<Rightarrow> Inl e
      | Inr b \<Rightarrow> top_level_fields rest response_data (if b then score + 0.2 else score))"

definition agent_is_dict :: "json \<Rightarrow> string \<Rightarrow> exn + bool" where
  "agent_is_dict agents agent =
     andthen (py_in agent agents) (\<lambda>b.
       if b then andthen (py_index agents agent) (\<lambda>v. Inr (is_dict v)) else Inr False)"

fun agent_keys :: "string list \<Rightarrow> json \<Rightarrow> real \<Rightarrow> exn + real" where
  "agent_keys [] agents score = Inr score"
| "agent_keys (agent # rest) agents score =
     (case agent_is_dict agents agent of
        Inl e \<Rightarrow> Inl e
      | Inr b \<Rightarrow> agent_keys rest agents (if b then score + 0.13 else score))"

text \<open>\<^verbatim>\<open>all(field in v for field in wanted)\<close> stops at the first field that is missing.\<close>

fun has_all :: "string list \<Rightarrow> json \<Rightarrow> exn + bool" where
  "has_all [] v = Inr True"
| "has_all (field # rest) v =
     (case py_in field v of
        Inl e \<Rightarrow> Inl e
      | Inr b \<Rightarrow> if b then has_all rest v else Inr False)"

definition critical_fields :: "json \<Rightarrow> string \<Rightarrow> string list \<Rightarrow> real \<Rightarrow> exn + real" where
  "critical_fields agents agent wanted score =
     andthen (py_in agent agents) (\<lambda>b.
       if b then
         andthen (py_index agents agent) (\<lambda>v.
         andthen (has_all wanted v) (\<lambda>ok. Inr (if ok then score + 0.1 else score)))
       else Inr score)"

definition check_structure :: "json \<Rightarrow> exn + real" where
  "check_structure response_data =
     andthen (top_level_fields [''agent_outputs'', ''decision'', ''trajectory_id'']
                response_data 0) (\<lambda>s1.
     andthen (py_get response_data ''agent_outputs'' (JDict [])) (\<lambda>agents.
     andthen (agent_keys [''loan_officer'', ''credit_analyst'', ''risk_manager''] agents s1) (\<lambda>s2.
     andthen (critical_fields agents ''loan_officer''
                [''monthly_income'', ''monthly_debts'', ''loan_amount''] s2) (\<lambda>s3.
     andthen (critical_fields agents ''credit_analyst''
                [''dti_ratio'', ''credit_score'', ''risk_assessment''] s3) (\<lambda>s4.
     andthen (critical_fields agents ''risk_manager''
                [''decision'', ''interest_rate''] s4) (\<lambda>s5.
     Inr (min s5 1)))))))"

section \<open>The calculation check\<close>

text \<open>
  \<^verbatim>\<open>_verify_calculations\<close>. The block is read from its end: the payment check (lines
  233 to 237), before it the interest-rate check (lines 220 to 231), before it the DTI
  check (lines 199 to 218). \<open>monthly_payment\<close> is \<open>None\<close> while the local variable is
  unbound: it is assigned only inside the DTI check.

  The two tolerance tests of lines 211 and 213 compare exact values here; the code
  compares doubles, so a reported DTI whose exact distance from the expected one is 0.05
  or 0.1 up to rounding can earn the other increment in the code.
\<close>

definition dti_increment :: "real \<Rightarrow> real \<Rightarrow> real" where
  "dti_increment reported_dti expected_dti =
     (if \<bar>reported_dti - expected_dti\<bar> < 0.05 then 0.5
      else if \<bar>reported_dti - expected_dti\<bar> < 0.1 then 0.3
      else if reported_dti > 0 then 0.1
      else 0)"

definition rate_increment :: "string \<Rightarrow> real \<Rightarrow> real" where
  "rate_increment risk interest_rate_annual =
     (if risk = ''low'' \<and> 5 \<le> interest_rate_annual \<and> interest_rate_annual \<le> 8 then 0.25
      else if risk = ''medium'' \<and> 8 \<le> interest_rate_annual \<and> interest_rate_annual \<le> 12 then 0.25
      else if risk = ''high'' \<and> 12 \<le> interest_rate_annual \<and> interest_rate_annual \<le> 18 then 0.25
      else if interest_rate_annual > 0 then 0.1
      else 0)"

definition payment_check :: "pylib \<Rightarrow> json \<Rightarrow> real option \<Rightarrow> real \<Rightarrow> real \<times> exn option" where
  "payment_check L risk_manager monthly_payment score =
     attempt score (py_in ''monthly_payment'' risk_manager) (\<lambda>reported.
       if reported then
         attempt score
           (case monthly_payment of None \<Rightarrow> Inl UnboundLocalError | Some mp \<Rightarrow> Inr mp) (\<lambda>mp.
           if mp > 0 then
             attempt score
               (andthen (py_get risk_manager ''monthly_payment'' (JInt 0)) (py_float L))
               (\<lambda>reported_payment.
             attempt score (py_div \<bar>reported_payment - mp\<bar> mp) (\<lambda>rel.
               (if rel < 0.05 then score + 0.25 else score, None)))
           else (score, None))
       else (score, None))"

definition rate_check ::
  "pylib \<Rightarrow> json \<Rightarrow> json \<Rightarrow> real option \<Rightarrow> real \<Rightarrow> real \<times> exn option" where
  "rate_check L credit_analyst risk_manager monthly_payment score =
     attempt score
       (andthen (py_get credit_analyst ''risk_assessment'' (JStr [])) (py_lower L)) (\<lambda>risk.
     attempt score
       (andthen (py_get risk_manager ''interest_rate'' (JInt 0)) (py_float L))
       (\<lambda>interest_rate_annual.
     payment_check L risk_manager monthly_payment
       (score + rate_increment risk interest_rate_annual)))"

definition dti_check ::
  "pylib \<Rightarrow> json \<Rightarrow> json \<Rightarrow> real \<Rightarrow> real \<Rightarrow> real \<Rightarrow> real \<Rightarrow> int \<Rightarrow> real
     \<Rightarrow> real \<times> exn option" where
  "dti_check L credit_analyst risk_manager monthly_income monthly_debts loan_amount
       interest_rate term_months score =
     attempt score (py_pow (one_plus interest_rate) term_months) (\<lambda>growth.
     attempt score (py_div (loan_amount * interest_rate * growth) (growth - 1))
       (\<lambda>monthly_payment.
     attempt score (py_div (monthly_debts + monthly_payment) monthly_income) (\<lambda>expected_dti.
     attempt score
       (andthen (py_get credit_analyst ''dti_ratio'' (JInt 0)) (py_float L)) (\<lambda>reported_dti.
     rate_check L credit_analyst risk_manager (Some monthly_payment)
       (score + dti_increment reported_dti expected_dti)))))"

text \<open>Lines 184 to 186: the three numbers of the loan officer, read in this order.\<close>

definition officer_numbers :: "pylib \<Rightarrow> json \<Rightarrow> exn + (real \<times> real \<times> real)" where
  "officer_numbers L loan_officer =
     andthen (andthen (py_get loan_officer ''monthly_income'' (JInt 0)) (py_float L))
       (\<lambda>monthly_income.
     andthen (andthen (py_get loan_officer ''monthly_debts'' (JInt 0)) (py_float L))
       (\<lambda>monthly_debts.
     andthen (andthen (py_get loan_officer ''loan_amount'' (JInt 0)) (py_float L))
       (\<lambda>loan_amount.
     Inr (monthly_income, monthly_debts, loan_amount))))"

text \<open>
  Lines 196 and 197: the annual rate (before the division by 100 and by 12) and the
  term of the risk manager.
\<close>

definition manager_terms :: "pylib \<Rightarrow> json \<Rightarrow> exn + (real \<times> int)" where
  "manager_terms L risk_manager =
     andthen (andthen (py_get risk_manager ''interest_rate'' (JInt 0)) (py_float L)) (\<lambda>rate.
     andthen (andthen (py_get risk_manager ''term_months'' (JInt 0)) (py_int L))
       (\<lambda>term_months.
     Inr (rate, term_months)))"

text \<open>The body of the \<^verbatim>\<open>try\<close>; the early \<^verbatim>\<open>return score\<close> of line 194 is at score 0.\<close>

definition calculations_body :: "pylib \<Rightarrow> json \<Rightarrow> json \<Rightarrow> json \<Rightarrow> real \<times> exn option" where
  "calculations_body L loan_officer credit_analyst risk_manager =
     attempt 0 (officer_numbers L loan_officer)
       (\<lambda>(monthly_income, monthly_debts, loan_amount).
     if monthly_income > 0 then
       attempt 0 (py_in ''interest_rate'' risk_manager) (\<lambda>has_rate.
       if has_rate then
         attempt 0 (py_in ''term_months'' risk_manager) (\<lambda>has_term.
         if has_term then
           attempt 0 (manager_terms L risk_manager) (\<lambda>(rate, term_months).
           if rate / 100 / 12 > 0 \<and> term_months > 0 then
             dti_check L credit_analyst risk_manager monthly_income monthly_debts loan_amount
               (rate / 100 / 12) term_months 0
           else rate_check L credit_analyst risk_manager None 0)
         else (0, None))
       else (0, None))
     else (0, None))"

text \<open>\<^verbatim>\<open>except (ValueError, ZeroDivisionError, KeyError)\<close>, then the cap.\<close>

definition verify_calculations :: "pylib \<Rightarrow> json \<Rightarrow> json \<Rightarrow> json \<Rightarrow> exn + real" where
  "verify_calculations L loan_officer credit_analyst risk_manager =
     (case calculations_body L loan_officer credit_analyst risk_manager of
        (score, None) \<Rightarrow> Inr (min score 1)
      | (score, Some e) \<Rightarrow>
          if e = ValueError \<or> e = ZeroDivisionError \<or> e = KeyError then Inr (min score 1)
          else Inl e)"

section \<open>The risk evaluation check\<close>

text \<open>\<^verbatim>\<open>_assess_risk_evaluation\<close>; it has no \<^verbatim>\<open>try\<close> of its own.\<close>

definition tier_matches :: "int \<Rightarrow> string \<Rightarrow> bool" where
  "tier_matches credit_score credit_tier =
     ((credit_score \<ge> 750 \<and> credit_tier = ''excellent'') \<or>
      (700 \<le> credit_score \<and> credit_score < 750 \<and> credit_tier = ''good'') \<or>
      (650 \<le> credit_score \<and> credit_score < 700 \<and> credit_tier = ''fair'') \<or>
      (credit_score < 650 \<and> credit_tier = ''poor''))"

text \<open>
  Lines 250 to 260. The second component is the integer \<^verbatim>\<open>credit_score\<close> is rebound to,
  or \<open>None\<close> when it keeps the value that is not a number.
\<close>

definition credit_tier_check :: "pylib \<Rightarrow> json \<Rightarrow> exn + (real \<times> int option)" where
  "credit_tier_check L credit_analyst =
     andthen (py_get credit_analyst ''credit_score'' (JInt 0)) (\<lambda>credit_score.
       if is_number credit_score then
         andthen (py_int L credit_score) (\<lambda>cs.
         andthen (andthen (py_get credit_analyst ''credit_tier'' (JStr [])) (py_lower L))
           (\<lambda>credit_tier.
         Inr (if tier_matches cs credit_tier then 0.3 else 0, Some cs)))
       else Inr (0, None))"

text \<open>\<^verbatim>\<open>any(w in str(risk).lower() for risk in risk_factors)\<close>.\<close>

definition any_mentions :: "pylib \<Rightarrow> string \<Rightarrow> json list \<Rightarrow> bool" where
  "any_mentions L w risk_factors =
     list_ex (\<lambda>risk. substring w (str_lower L (py_str L risk))) risk_factors"

text \<open>
  Lines 263 to 272. \<^verbatim>\<open>credit_score < 650\<close> raises \<^verbatim>\<open>TypeError\<close> when
  \<^verbatim>\<open>credit_score\<close> is not a number.
\<close>

definition risk_factors_check :: "pylib \<Rightarrow> json \<Rightarrow> int option \<Rightarrow> real \<Rightarrow> exn + real" where
  "risk_factors_check L credit_analyst credit_score score =
     andthen (py_get credit_analyst ''risk_factors'' (JList [])) (\<lambda>risk_factors.
       case risk_factors of
         JList (r # rs) \<Rightarrow>
           andthen (andthen (py_get credit_analyst ''dti_ratio'' (JInt 0)) (py_float L))
             (\<lambda>dti_ratio.
           case credit_score of
             None \<Rightarrow> Inl TypeError
           | Some cs \<Rightarrow>
               Inr (score + 0.2
                 + (if dti_ratio > 0.43 \<and> any_mentions L ''dti'' (r # rs) then 0.1 else 0)
                 + (if cs < 650 \<and> any_mentions L ''credit'' (r # rs) then 0.1 else 0)))
       | _ \<Rightarrow> Inr score)"

definition assess_risk_evaluation :: "pylib \<Rightarrow> json \<Rightarrow> json \<Rightarrow> exn + real" where
  "assess_risk_evaluation L credit_analyst loan_officer =
     andthen (credit_tier_check L credit_analyst) (\<lambda>(s1, credit_score).
     andthen (risk_factors_check L credit_analyst credit_score s1) (\<lambda>s2.
     andthen (py_get credit_analyst ''risk_score'' (JInt 0)) (\<lambda>risk_score_val.
     andthen (andthen (py_get loan_officer ''employment_status'' (JStr [])) (py_lower L))
       (\<lambda>employment_status.
     Inr (min (s2
            + (if is_number risk_score_val \<and> 1 \<le> num_val risk_score_val
                  \<and> num_val risk_score_val \<le> 10 then 0.2 else 0)
            + (if employment_status \<noteq> [] \<and> employment_status \<noteq> ''unknown'' then 0.1 else 0))
          1)))))"

section \<open>The decision logic check\<close>

text \<open>\<^verbatim>\<open>_check_decision_logic\<close>: lines 302 to 313, 316 to 321 and 324 to 327.\<close>

definition dti_decision :: "pylib \<Rightarrow> json \<Rightarrow> real \<Rightarrow> string \<Rightarrow> exn + real" where
  "dti_decision L risk_manager dti_ratio rm_decision =
     (if dti_ratio > 0 then
        (if dti_ratio > 0.43 then
           (if rm_decision = ''DENIED'' then Inr 0.3
            else if rm_decision = ''APPROVED'' then
              andthen (andthen (py_get risk_manager ''interest_rate'' (JInt 0)) (py_float L))
                (\<lambda>interest_rate. Inr (if interest_rate > 12 then 0.2 else 0))
            else Inr 0)
         else Inr 0.1)
      else Inr 0)"

definition credit_decision :: "int \<Rightarrow> string \<Rightarrow> real" where
  "credit_decision credit_score rm_decision =
     (if credit_score < 620 \<and> rm_decision = ''DENIED'' then 0.2
      else if credit_score \<ge> 720 \<and> rm_decision = ''APPROVED'' then 0.2
      else if 620 \<le> credit_score \<and> credit_score < 720 then 0.1
      else 0)"

definition risk_alignment :: "string \<Rightarrow> string \<Rightarrow> real" where
  "risk_alignment risk rm_decision =
     (if risk = ''high'' \<and> rm_decision = ''DENIED'' then 0.2
      else if risk = ''low'' \<and> rm_decision = ''APPROVED'' then 0.2
      else 0)"

definition decision_body :: "pylib \<Rightarrow> json \<Rightarrow> json \<Rightarrow> json \<Rightarrow> real \<times> exn option" where
  "decision_body L credit_analyst risk_manager final_decision =
     attempt 0 (andthen (py_get credit_analyst ''dti_ratio'' (JInt 0)) (py_float L))
       (\<lambda>dti_ratio.
     attempt 0 (andthen (py_get credit_analyst ''credit_score'' (JInt 0)) (py_int L))
       (\<lambda>credit_score.
     attempt 0 (andthen (py_get credit_analyst ''risk_assessment'' (JStr [])) (py_lower L))
       (\<lambda>risk.
     attempt 0 (andthen (py_get risk_manager ''decision'' (JStr [])) (py_upper L))
       (\<lambda>rm_decision.
     attempt 0 (py_upper L final_decision) (\<lambda>final_upper.
     attempt (if rm_decision = final_upper then 0.3 else 0)
       (dti_decision L risk_manager dti_ratio rm_decision) (\<lambda>inc.
     ((if rm_decision = final_upper then 0.3 else 0) + inc
        + credit_decision credit_score rm_decision
        + risk_alignment risk rm_decision, None)))))))"

text \<open>\<^verbatim>\<open>except (ValueError, KeyError)\<close>, then the cap.\<close>

definition check_decision_logic :: "pylib \<Rightarrow> json \<Rightarrow> json \<Rightarrow> json \<Rightarrow> exn + real" where
  "check_decision_logic L credit_analyst risk_manager final_decision =
     (case decision_body L credit_analyst risk_manager final_decision of
        (score, None) \<Rightarrow> Inr (min score 1)
      | (score, Some e) \<Rightarrow>
          if e = ValueError \<or> e = KeyError then Inr (min score 1) else Inl e)"

section \<open>The consistency check\<close>

text \<open>
  \<^verbatim>\<open>_check_consistency\<close>. The loops of lines 340 to 342 and 349 to 351 walk
  \<^verbatim>\<open>agents.items()\<close> and collect \<^verbatim>\<open>float(agent_data.get(key, 0))\<close> of every agent that
  has the key.
\<close>

fun collect_amounts :: "pylib \<Rightarrow> string \<Rightarrow> (string \<times> json) list \<Rightarrow> exn + real list" where
  "collect_amounts L key [] = Inr []"
| "collect_amounts L key ((agent_name, agent_data) # rest) =
     (case py_in key agent_data of
        Inl e \<Rightarrow> Inl e
      | Inr b \<Rightarrow>
          if b then
            (case andthen (py_get agent_data key (JInt 0)) (py_float L) of
               Inl e \<Rightarrow> Inl e
             | Inr x \<Rightarrow>
                 (case collect_amounts L key rest of
                    Inl e \<Rightarrow> Inl e
                  | Inr xs \<Rightarrow> Inr (x # xs)))
          else collect_amounts L key rest)"

text \<open>Lines 361 to 364, on the upper-cased recommendation.\<close>

definition normalize_rec :: "string \<Rightarrow> string option" where
  "normalize_rec r =
     (if substring ''APPROV'' r then Some ''APPROVED''
      else if substring ''DENI'' r \<or> substring ''DECLIN'' r then Some ''DENIED''
      else None)"

fun collect_recommendations :: "pylib \<Rightarrow> (string \<times> json) list \<Rightarrow> exn + string list" where
  "collect_recommendations L [] = Inr []"
| "collect_recommendations L ((agent_name, agent_data) # rest) =
     (case py_in ''recommendation'' agent_data of
        Inl e \<Rightarrow> Inl e
      | Inr b \<Rightarrow>
          if b then
            (case andthen (py_index agent_data ''recommendation'') (py_upper L) of
               Inl e \<Rightarrow> Inl e
             | Inr r \<Rightarrow>
                 (case collect_recommendations L rest of
                    Inl e \<Rightarrow> Inl e
                  | Inr rs \<Rightarrow>
                      Inr (case normalize_rec r of None \<Rightarrow> rs | Some n \<Rightarrow> n # rs)))
          else collect_recommendations L rest)"

text \<open>\<^verbatim>\<open>len(set(xs)) == 1 and len(xs) >= 2\<close>.\<close>

definition all_same :: "real list \<Rightarrow> bool" where
  "all_same xs = (length (remdups xs) = 1 \<and> length xs \<ge> 2)"

text \<open>Lines 366 to 372; \<^verbatim>\<open>final_decision\<close> is compared as it was passed in.\<close>

definition recommendation_increment :: "string list \<Rightarrow> json \<Rightarrow> real" where
  "recommendation_increment recommendations final_decision =
     (if recommendations = [] then 0
      else if list_all (\<lambda>r. r = ''APPROVED'') recommendations
                \<and> final_decision = JStr ''APPROVED'' then 0.4
      else if list_all (\<lambda>r. r = ''DENIED'') recommendations
                \<and> final_decision = JStr ''DENIED'' then 0.4
      else if length (remdups recommendations) > 1 then 0.2
      else 0)"

text \<open>\<^verbatim>\<open>agents.items()\<close> exists only on a mapping.\<close>

definition check_consistency :: "pylib \<Rightarrow> json \<Rightarrow> json \<Rightarrow> exn + real" where
  "check_consistency L agents final_decision =
     (case agents of
        JDict items \<Rightarrow>
          andthen (collect_amounts L ''loan_amount'' items) (\<lambda>loan_amounts.
          andthen (collect_amounts L ''monthly_income'' items) (\<lambda>incomes.
          andthen (collect_recommendations L items) (\<lambda>recommendations.
          Inr (min ((if all_same loan_amounts then 0.3 else 0)
                    + (if all_same incomes then 0.3 else 0)
                    + recommendation_increment recommendations final_decision) 1))))
      | _ \<Rightarrow> Inl AttributeError)"

section \<open>The reward\<close>

text \<open>
  \<^verbatim>\<open>__call__\<close>. The result is the scalar reward, or a mapping when \<^verbatim>\<open>return_dict\<close> is
  set. \<^verbatim>\<open>score_components\<close> is a \<^verbatim>\<open>dict\<close> created with its five keys and updated in
  place. The draw of \<^verbatim>\<open>random.uniform(-0.02, 0.02)\<close> is the argument \<open>noise\<close>.
\<close>

datatype result = Scalar real | Breakdown "(string \<times> real) list"

fun set_item :: "string \<Rightarrow> real \<Rightarrow> (string \<times> real) list \<Rightarrow> (string \<times> real) list" where
  "set_item k v [] = [(k, v)]"
| "set_item k v ((k', v') # d) = (if k' = k then (k, v) # d else (k', v') # set_item k v d)"

definition sum_values :: "(string \<times> real) list \<Rightarrow> real" where
  "sum_values d = sum_list (map snd d)"

definition initial_components :: "(string \<times> real) list" where
  "initial_components =
     [(''structure'', 0), (''calculations'', 0), (''risk_assessment'', 0),
      (''decision_logic'', 0), (''consistency'', 0)]"

definition reward_class :: "real \<Rightarrow> nat" where
  "reward_class final_score =
     (if final_score \<ge> 0.9 then 5
      else if final_score \<ge> 0.75 then 4
      else if final_score \<ge> 0.6 then 3
      else if final_score \<ge> 0.4 then 2
      else 1)"

definition reward_scale :: "nat \<Rightarrow> exn + real" where
  "reward_scale c =
     (if c = 1 then Inr 0.0
      else if c = 2 then Inr 0.15
      else if c = 3 then Inr 0.3
      else if c = 4 then Inr 0.4
      else if c = 5 then Inr 1.0
      else Inl KeyError)"

definition parse_response :: "pylib \<Rightarrow> json \<Rightarrow> exn + json" where
  "parse_response L response =
     (case response of
        JStr s \<Rightarrow>
          (case json_loads L (sub_fences L s) of
             None \<Rightarrow> Inl JSONDecodeError
           | Some response_data \<Rightarrow> Inr response_data)
      | _ \<Rightarrow> Inr response)"

text \<open>
  Lines 80 to 101: the agents are extracted and the four scorers run in the order of the
  source, so the first one that raises ends the evaluation. The result holds
  \<^verbatim>\<open>calc_score\<close>, \<^verbatim>\<open>risk_score\<close>, \<^verbatim>\<open>decision_score\<close> and \<^verbatim>\<open>consistency_score\<close>.
\<close>

definition run_scorers :: "pylib \<Rightarrow> json \<Rightarrow> exn + (real \<times> real \<times> real \<times> real)" where
  "run_scorers L response_data =
     andthen (py_get response_data ''agent_outputs'' (JDict [])) (\<lambda>agents.
     andthen (py_get agents ''loan_officer'' (JDict [])) (\<lambda>loan_officer.
     andthen (py_get agents ''credit_analyst'' (JDict [])) (\<lambda>credit_analyst.
     andthen (py_get agents ''risk_manager'' (JDict [])) (\<lambda>risk_manager.
     andthen (verify_calculations L loan_officer credit_analyst risk_manager) (\<lambda>calc_score.
     andthen (assess_risk_evaluation L credit_analyst loan_officer) (\<lambda>risk_score.
     andthen (py_get response_data ''decision'' (JStr [])) (\<lambda>final_decision.
     andthen (check_decision_logic L credit_analyst risk_manager final_decision)
       (\<lambda>decision_score.
     andthen (py_get response_data ''decision'' (JStr [])) (\<lambda>final_decision'.
     andthen (check_consistency L agents final_decision') (\<lambda>consistency_score.
     Inr (calc_score, risk_score, decision_score, consistency_score)))))))))))"

text \<open>
  The weighted components are stored (lines 88, 92, 98 and 102), summed (line 105) and
  mapped to the band's reward (lines 108 to 120): \<^verbatim>\<open>final_reward\<close> before the noise,
  from the components that hold the structure score and from the four scores. The products
  and the sum are exact here and rounded to doubles in the code, so a sum that is a
  threshold up to rounding can fall into the neighbouring band in the code.
\<close>

definition weighted_band ::
  "(string \<times> real) list \<Rightarrow> real \<Rightarrow> real \<Rightarrow> real \<Rightarrow> real \<Rightarrow> exn + real" where
  "weighted_band comps calc_score risk_score decision_score consistency_score =
     reward_scale (reward_class (sum_values
       (set_item ''consistency'' (consistency_score * 0.15)
       (set_item ''decision_logic'' (decision_score * 0.2)
       (set_item ''risk_assessment'' (risk_score * 0.2)
       (set_item ''calculations'' (calc_score * 0.25) comps))))))"

definition banded_reward :: "pylib \<Rightarrow> json \<Rightarrow> (string \<times> real) list \<Rightarrow> exn + real" where
  "banded_reward L response_data comps =
     andthen (run_scorers L response_data)
       (\<lambda>(calc_score, risk_score, decision_score, consistency_score).
     weighted_band comps calc_score risk_score decision_score consistency_score)"

text \<open>Lines 123 to 134: the noise, the clamp and the shape of the result.\<close>

definition noisy :: "real \<Rightarrow> bool \<Rightarrow> real \<Rightarrow> result" where
  "noisy final_reward return_dict noise =
     (if return_dict
      then Breakdown [(''reward'', max 0 (min 1 (final_reward + noise)))]
      else Scalar (max 0 (min 1 (final_reward + noise))))"

text \<open>The body of the \<^verbatim>\<open>try\<close> of \<^verbatim>\<open>__call__\<close>, with the early exit of lines 73 to 78.\<close>

definition score_body :: "pylib \<Rightarrow> json \<Rightarrow> bool \<Rightarrow> real \<Rightarrow> exn + result" where
  "score_body L response return_dict noise =
     andthen (parse_response L response) (\<lambda>response_data.
     andthen (check_structure response_data) (\<lambda>structure_score.
       if structure_score < 0.5 then
         Inr (if return_dict
              then Breakdown (set_item ''structure'' (structure_score * 0.2) initial_components)
              else Scalar (sum_values
                     (set_item ''structure'' (structure_score * 0.2) initial_components)))
       else
         andthen (banded_reward L response_data
                    (set_item ''structure'' (structure_score * 0.2) initial_components))
           (\<lambda>final_reward. Inr (noisy final_reward return_dict noise))))"

text \<open>\<^verbatim>\<open>except (json.JSONDecodeError, KeyError, TypeError)\<close>; any other exception escapes.\<close>

definition score :: "pylib \<Rightarrow> json \<Rightarrow> bool \<Rightarrow> real \<Rightarrow> exn + result" where
  "score L response return_dict noise =
     (case score_body L response return_dict noise of
        Inr r \<Rightarrow> Inr r
      | Inl e \<Rightarrow>
          if e = JSONDecodeError \<or> e = KeyError \<or> e = TypeError then
            Inr (if return_dict then Breakdown [(''reward'', 0)] else Scalar 0)
          else Inl e)"

section \<open>A library for concrete inputs\<close>

text \<open>
  To evaluate the model, the library is fixed to one that handles plain ASCII: letters are
  mapped between the two cases, a text of decimal digits is read as a number and every
  other text is refused as a number, no fence is stripped, and the only texts
  \<open>json_loads\<close> reads are \<^verbatim>\<open>[]\<close> and \<^verbatim>\<open>{}\<close>. This agrees with Python on the
  texts that occur in the concrete inputs below.
\<close>

definition ascii_upper :: "string \<Rightarrow> string" where
  "ascii_upper s =
     map (\<lambda>c. case map_of (zip ''abcdefghijklmnopqrstuvwxyz'' ''ABCDEFGHIJKLMNOPQRSTUVWXYZ'') c of
                 Some u \<Rightarrow> u | None \<Rightarrow> c) s"

definition ascii_lower :: "string \<Rightarrow> string" where
  "ascii_lower s =
     map (\<lambda>c. case map_of (zip ''ABCDEFGHIJKLMNOPQRSTUVWXYZ'' ''abcdefghijklmnopqrstuvwxyz'') c of
                 Some l \<Rightarrow> l | None \<Rightarrow> c) s"

fun read_digits :: "string \<Rightarrow> nat \<Rightarrow> nat option" where
  "read_digits [] acc = Some acc"
| "read_digits (c # cs) acc =
     (case map_of (zip ''0123456789'' [0, 1, 2, 3, 4, 5, 6, 7, 8, 9]) c of
        None \<Rightarrow> None
      | Some d \<Rightarrow> read_digits cs (10 * acc + d))"

definition read_decimal :: "string \<Rightarrow> nat option" where
  "read_decimal s = (if s = [] then None else read_digits s 0)"

definition plain_lib :: pylib where
  "plain_lib =
     \<lparr> sub_fences = (\<lambda>s. s),
       json_loads = (\<lambda>s. if s = ''[]'' then Some (JList [])
                          else if s = ''{}'' then Some (JDict []) else None),
       float_of_str = (\<lambda>s. map_option real (read_decimal s)),
       int_of_str = (\<lambda>s. map_option int (read_decimal s)),
       repr_of = (\<lambda>v. []),
       str_upper = ascii_upper,
       str_lower = ascii_lower \<rparr>"

section \<open>What an agent reports\<close>

text \<open>
  An agent reports the number \<open>x\<close> under \<open>key\<close> when the key is in its mapping and
  \<^verbatim>\<open>float(agent_data.get(key, 0))\<close> is \<open>x\<close>. Its recommendation normalizes to \<open>n\<close> when
  it has a \<^verbatim>\<open>recommendation\<close> whose upper-cased text lines 361 to 364 turn into \<open>n\<close>.
\<close>

definition reports :: "pylib \<Rightarrow> string \<Rightarrow> real \<Rightarrow> json \<Rightarrow> bool" where
  "reports L key x agent_data =
     (py_in key agent_data = Inr True
      \<and> andthen (py_get agent_data key (JInt 0)) (py_float L) = Inr x)"

definition recommends :: "pylib \<Rightarrow> string \<Rightarrow> json \<Rightarrow> bool" where
  "recommends L n agent_data =
     (py_in ''recommendation'' agent_data = Inr True
      \<and> (case andthen (py_index agent_data ''recommendation'') (py_upper L) of
            Inl e \<Rightarrow> False
          | Inr r \<Rightarrow> normalize_rec r = Some n))"

section \<open>Concrete inputs\<close>

text \<open>
  An envelope whose three agents agree: income 8000, loan amount 250000, approving
  recommendations in three spellings, decision \<^verbatim>\<open>APPROVED\<close>. The risk manager gives no
  \<^verbatim>\<open>term_months\<close>.
\<close>

definition envelope :: "json \<Rightarrow> json \<Rightarrow> json \<Rightarrow> json \<Rightarrow> json" where
  "envelope decision loan_officer credit_analyst risk_manager =
     JDict [(''trajectory_id'', JStr ''t1''), (''decision'', decision),
            (''agent_outputs'',
               JDict [(''loan_officer'', loan_officer), (''credit_analyst'', credit_analyst),
                      (''risk_manager'', risk_manager)])]"

definition officer :: json where
  "officer =
     JDict [(''monthly_income'', JInt 8000), (''monthly_debts'', JInt 500),
            (''loan_amount'', JInt 250000), (''employment_status'', JStr ''employed''),
            (''recommendation'', JStr ''Approve'')]"

definition analyst_with :: "json \<Rightarrow> json" where
  "analyst_with dti =
     JDict [(''dti_ratio'', dti), (''credit_score'', JInt 760),
            (''credit_tier'', JStr ''Excellent''), (''risk_assessment'', JStr ''low''),
            (''risk_factors'', JList [JStr ''none'']), (''risk_score'', JInt 2),
            (''loan_amount'', JInt 250000), (''monthly_income'', JInt 8000),
            (''recommendation'', JStr ''approved'')]"

definition analyst :: json where
  "analyst = analyst_with (JFloat 0.3)"

definition manager_with :: "(string \<times> json) list \<Rightarrow> json" where
  "manager_with extra =
     JDict ([(''decision'', JStr ''APPROVED''), (''interest_rate'', JInt 6),
             (''loan_amount'', JFloat 250000), (''monthly_income'', JInt 8000),
             (''recommendation'', JStr ''APPROVED'')] @ extra)"

definition manager :: json where
  "manager = manager_with []"

definition fair_envelope :: json where
  "fair_envelope = envelope (JStr ''APPROVED'') officer analyst manager"

text \<open>The same envelope with a term of zero months, without and with a reported payment.\<close>

definition zero_term_envelope :: json where
  "zero_term_envelope =
     envelope (JStr ''APPROVED'') officer analyst (manager_with [(''term_months'', JInt 0)])"

definition zero_term_payment_envelope :: json where
  "zero_term_payment_envelope =
     envelope (JStr ''APPROVED'') officer analyst
       (manager_with [(''term_months'', JInt 0), (''monthly_payment'', JInt 1500)])"


text \<open>The envelope of the agreeing agents with the text \<^verbatim>\<open>abc\<close> as the income.\<close>

definition text_income_officer :: json where
  "text_income_officer =
     JDict [(''monthly_income'', JStr ''abc''), (''monthly_debts'', JInt 500),
            (''loan_amount'', JInt 250000)]"

text \<open>The same envelope with the text \<^verbatim>\<open>abc\<close> as the analyst's \<^verbatim>\<open>dti_ratio\<close>.\<close>

definition text_dti_envelope :: json where
  "text_dti_envelope =
     envelope (JStr ''APPROVED'') officer (analyst_with (JStr ''abc'')) manager"

text \<open>Two envelopes below the structure gate.\<close>

definition two_field_envelope :: json where
  "two_field_envelope = JDict [(''trajectory_id'', JStr ''t1''), (''decision'', JStr ''APPROVED'')]"

definition decision_only_envelope :: json where
  "decision_only_envelope = JDict [(''decision'', JStr ''DENIED'')]"

text \<open>The agents of \<open>fair_envelope\<close>, as \<^verbatim>\<open>_check_consistency\<close> receives them.\<close>

definition agreeing_agents :: "(string \<times> json) list" where
  "agreeing_agents =
     [(''loan_officer'', officer), (''credit_analyst'', analyst), (''risk_manager'', manager)]"

lemmas model_defs =
  andthen_def attempt_def py_div_def trunc_def float_of_int_def one_plus_def py_pow_def
  officer_numbers_def manager_terms_def weighted_band_def
  agent_is_dict_def critical_fields_def check_structure_def
  dti_increment_def rate_increment_def payment_check_def rate_check_def dti_check_def
  calculations_body_def verify_calculations_def
  tier_matches_def credit_tier_check_def any_mentions_def risk_factors_check_def
  assess_risk_evaluation_def
  dti_decision_def credit_decision_def risk_alignment_def decision_body_def
  check_decision_logic_def
  normalize_rec_def all_same_def recommendation_increment_def check_consistency_def
  sum_values_def initial_components_def reward_class_def reward_scale_def parse_response_def
  run_scorers_def banded_reward_def noisy_def score_body_def score_def

lemmas input_defs =
  ascii_upper_def ascii_lower_def read_decimal_def plain_lib_def
  envelope_def officer_def analyst_with_def analyst_def manager_with_def manager_def
  fair_envelope_def agreeing_agents_def

section \<open>The structure gate\<close>

lemma sum_structure_only:
  "sum_values (set_item ''structure'' x initial_components) = x"
  by (simp add: sum_values_def initial_components_def)

text \<open>
  C5. When the structure score of the parsed envelope is below 0.5, the call returns 0.2
  times the structure score, which is at most 0.2, whatever the noise draw; with
  \<^verbatim>\<open>return_dict\<close> it returns the components, of which \<^verbatim>\<open>calculations\<close>,
  \<^verbatim>\<open>risk_assessment\<close>, \<^verbatim>\<open>decision_logic\<close> and \<^verbatim>\<open>consistency\<close> are 0. No scorer, band
  or noise takes part.
\<close>

theorem gate_early_exit:
  assumes "parse_response L response = Inr response_data"
      and "check_structure response_data = Inr structure_score"
      and "structure_score < 0.5"
  shows "score L response False noise = Inr (Scalar (0.2 * structure_score))
       \<and> score L response True noise =
           Inr (Breakdown [(''structure'', 0.2 * structure_score), (''calculations'', 0),
                           (''risk_assessment'', 0), (''decision_logic'', 0),
                           (''consistency'', 0)])
       \<and> 0.2 * structure_score \<le> 0.2"
  using assms
  by (simp add: score_def score_body_def andthen_def sum_structure_only)
     (simp add: initial_components_def)

theorem gate_early_exit_witness:
  "score plain_lib two_field_envelope False 0.01 = Inr (Scalar (0.2 * 0.4))
   \<and> score plain_lib two_field_envelope True 0.01 =
       Inr (Breakdown [(''structure'', 0.2 * 0.4), (''calculations'', 0),
                       (''risk_assessment'', 0), (''decision_logic'', 0),
                       (''consistency'', 0)])
   \<and> 0.2 * 0.4 \<le> (0.2 :: real)"
proof -
  have p: "parse_response plain_lib two_field_envelope = Inr two_field_envelope"
    by (simp add: parse_response_def two_field_envelope_def)
  have c: "check_structure two_field_envelope = Inr 0.4"
    by (simp add: model_defs input_defs two_field_envelope_def)
  have g: "(0.4 :: real) < 0.5" by simp
  show ?thesis using gate_early_exit [OF p c g, where noise = "0.01"] by simp
qed

text \<open>
  C8. With \<^verbatim>\<open>return_dict\<close> set, an envelope below the structure gate is answered with
  the five components (line 77), not with a mapping whose single key is \<^verbatim>\<open>reward\<close> as on
  lines 132 and 139. Here the envelope holds \<^verbatim>\<open>decision\<close> alone: its structure score is
  0.2, the scalar result is 0.04, and the mapping has no key \<^verbatim>\<open>reward\<close>.
\<close>

theorem breakdown_shape_on_gated_path:
  "score plain_lib decision_only_envelope True noise =
     Inr (Breakdown [(''structure'', 0.04), (''calculations'', 0), (''risk_assessment'', 0),
                     (''decision_logic'', 0), (''consistency'', 0)])
   \<and> score plain_lib decision_only_envelope False noise = Inr (Scalar 0.04)"
  by (simp add: model_defs input_defs decision_only_envelope_def)

section \<open>Bands and noise\<close>





text \<open>
  How the call reaches that computation: with the scores the scorers return, and with
  exactly 0 and no noise when a scorer raises an exception that line 136 catches.
\<close>

lemma score_after_scorers:
  assumes "parse_response L response = Inr response_data"
      and "check_structure response_data = Inr structure_score"
      and "0.5 \<le> structure_score"
      and "run_scorers L response_data = Inr (calc, risk, decision, consistency)"
      and "weighted_band (set_item ''structure'' (structure_score * 0.2) initial_components)
             calc risk decision consistency = Inr b"
  shows "score L response return_dict noise = Inr (noisy b return_dict noise)"
  using assms
  by (simp add: score_def score_body_def banded_reward_def andthen_def)

lemma score_after_caught_exception:
  assumes "parse_response L response = Inr response_data"
      and "check_structure response_data = Inr structure_score"
      and "0.5 \<le> structure_score"
      and "run_scorers L response_data = Inl e"
      and "e = TypeError \<or> e = KeyError"
  shows "score L response False noise = Inr (Scalar 0)"
  using assms
  by (auto simp: score_def score_body_def banded_reward_def andthen_def)

lemma clamp_close:
  fixes b :: real
  assumes "- 0.02 \<le> n1" "n1 \<le> 0.02" "- 0.02 \<le> n2" "n2 \<le> 0.02"
  shows "\<bar>max 0 (min 1 (b + n1)) - max 0 (min 1 (b + n2))\<bar> \<le> 0.04"
  using assms by (auto simp: max_def min_def abs_if)

text \<open>
  As a function of the noise draw alone, a call either raises one exception, or returns
  one scalar, or returns one banded value plus the draw, clamped.
\<close>

lemma score_shape:
  "(\<exists>e. \<forall>n. score L response False n = Inl e)
   \<or> (\<exists>v. \<forall>n. score L response False n = Inr (Scalar v))
   \<or> (\<exists>b. \<forall>n. score L response False n = Inr (Scalar (max 0 (min 1 (b + n)))))"
proof (cases "parse_response L response")
  case (Inl e)
  then show ?thesis
    by (simp add: score_def score_body_def andthen_def)
next
  case parsed: (Inr response_data)
  show ?thesis
  proof (cases "check_structure response_data")
    case (Inl e)
    with parsed show ?thesis
      by (simp add: score_def score_body_def andthen_def)
  next
    case gate: (Inr structure_score)
    show ?thesis
    proof (cases "structure_score < 0.5")
      case True
      with parsed gate show ?thesis
        by (simp add: score_def score_body_def andthen_def)
    next
      case False
      show ?thesis
      proof (cases "banded_reward L response_data
                      (set_item ''structure'' (structure_score * 0.2) initial_components)")
        case (Inl e)
        with parsed gate False show ?thesis
          by (simp add: score_def score_body_def andthen_def)
      next
        case (Inr b)
        with parsed gate False
        have "\<forall>n. score L response False n = Inr (Scalar (max 0 (min 1 (b + n))))"
          by (simp add: score_def score_body_def andthen_def noisy_def)
        then show ?thesis by blast
      qed
    qed
  qed
qed

text \<open>
  C7, as the code has it. The value before noise is a function of the input: across calls
  only the draw varies. Two calls that return, with draws in [-0.02, 0.02], differ by at
  most 0.04: each is within 0.02 of the value before noise.
\<close>

theorem repeated_calls:
  "((\<exists>e. \<forall>n. score L response False n = Inl e)
    \<or> (\<exists>v. \<forall>n. score L response False n = Inr (Scalar v))
    \<or> (\<exists>b. \<forall>n. score L response False n = Inr (Scalar (max 0 (min 1 (b + n))))))
   \<and> (\<forall>n1 n2 r1 r2.
         - 0.02 \<le> n1 \<and> n1 \<le> 0.02 \<and> - 0.02 \<le> n2 \<and> n2 \<le> 0.02
         \<and> score L response False n1 = Inr (Scalar r1)
         \<and> score L response False n2 = Inr (Scalar r2)
         \<longrightarrow> \<bar>r1 - r2\<bar> \<le> 0.04)"
proof (intro conjI allI impI)
  show "(\<exists>e. \<forall>n. score L response False n = Inl e)
    \<or> (\<exists>v. \<forall>n. score L response False n = Inr (Scalar v))
    \<or> (\<exists>b. \<forall>n. score L response False n = Inr (Scalar (max 0 (min 1 (b + n)))))"
    by (rule score_shape)
next
  fix n1 n2 r1 r2 :: real
  assume h: "- 0.02 \<le> n1 \<and> n1 \<le> 0.02 \<and> - 0.02 \<le> n2 \<and> n2 \<le> 0.02
         \<and> score L response False n1 = Inr (Scalar r1)
         \<and> score L response False n2 = Inr (Scalar r2)"
  from score_shape [of L response]
  consider (raises) e where "\<forall>n. score L response False n = Inl e"
    | (fixed) v where "\<forall>n. score L response False n = Inr (Scalar v)"
    | (banded) b where "\<forall>n. score L response False n = Inr (Scalar (max 0 (min 1 (b + n))))"
    by blast
  then show "\<bar>r1 - r2\<bar> \<le> 0.04"
  proof cases
    case raises
    with h show ?thesis by simp
  next
    case fixed
    with h show ?thesis by simp
  next
    case banded
    with h have "r1 = max 0 (min 1 (b + n1))" "r2 = max 0 (min 1 (b + n2))"
      by simp_all
    with h clamp_close [of n1 n2 b] show ?thesis by simp
  qed
qed

text \<open>
  C7, as stated, fails: on the envelope of the Fair band the draws -0.02 and 0.02 give
  0.28 and 0.32, which differ by 0.04.
\<close>

theorem repeated_calls_counterexample:
  "score plain_lib fair_envelope False (- 0.02) = Inr (Scalar 0.28)
   \<and> score plain_lib fair_envelope False 0.02 = Inr (Scalar 0.32)
   \<and> \<bar>(0.28 :: real) - 0.32\<bar> > 0.02"
  by (simp add: model_defs input_defs)

theorem repeated_calls_witness:
  "- 0.02 \<le> (- 0.02 :: real) \<and> (0.02 :: real) \<le> 0.02
   \<and> score plain_lib fair_envelope False (- 0.02) = Inr (Scalar 0.28)
   \<and> score plain_lib fair_envelope False 0.02 = Inr (Scalar 0.32)
   \<and> \<bar>(0.28 :: real) - 0.32\<bar> \<le> 0.04"
proof -
  have a: "score plain_lib fair_envelope False (- 0.02) = Inr (Scalar 0.28)"
    by (simp add: model_defs input_defs)
  have b: "score plain_lib fair_envelope False 0.02 = Inr (Scalar 0.32)"
    by (simp add: model_defs input_defs)
  from repeated_calls [of plain_lib fair_envelope] a b
  have "\<bar>(0.28 :: real) - 0.32\<bar> \<le> 0.04"
    by (elim conjE allE [of _ "- 0.02"] allE [of _ "0.02"] allE [of _ "0.28"] allE [of _ "0.32"])
       simp
  with a b show ?thesis by simp
qed

section \<open>Exceptions that leave the call\<close>

text \<open>A text that \<^verbatim>\<open>json.loads\<close> refuses is answered with 0 and no noise.\<close>

lemma unparseable_text_scores_zero:
  assumes "json_loads L (sub_fences L s) = None"
  shows "score L (JStr s) False noise = Inr (Scalar 0)"
    and "score L (JStr s) True noise = Inr (Breakdown [(''reward'', 0)])"
  using assms by (simp_all add: score_def score_body_def parse_response_def andthen_def)

text \<open>
  So is a response that parses to a number, a truth value or \<^verbatim>\<open>None\<close>: the first
  \<^verbatim>\<open>in\<close> of \<^verbatim>\<open>_check_structure\<close> raises \<^verbatim>\<open>TypeError\<close>, which line 136 catches.
\<close>

lemma scalar_response_scores_zero:
  assumes "parse_response L response = Inr response_data"
      and "response_data = JNull \<or> response_data = JBool b \<or> response_data = JInt i
           \<or> response_data = JFloat x"
  shows "score L response False noise = Inr (Scalar 0)"
    and "score L response True noise = Inr (Breakdown [(''reward'', 0)])"
  using assms by (auto simp: score_def score_body_def check_structure_def andthen_def)

text \<open>
  C1. A response that is a list passes the three \<^verbatim>\<open>in\<close> tests of lines 148 to 150 and
  reaches \<^verbatim>\<open>response_data.get\<close> on line 153, which a list does not have: the call ends
  in \<^verbatim>\<open>AttributeError\<close>, which line 136 does not catch. The same happens to the text
  \<^verbatim>\<open>[]\<close>, which parses to the empty list.
\<close>

theorem array_response_raises:
  "score L (JList xs) return_dict noise = Inl AttributeError
   \<and> score plain_lib (JStr ''[]'') return_dict noise = Inl AttributeError"
  by (simp add: model_defs input_defs)

text \<open>
  C3. With the text \<^verbatim>\<open>abc\<close> as the analyst's \<^verbatim>\<open>dti_ratio\<close> and a risk factor listed,
  \<^verbatim>\<open>float\<close> on line 268 raises \<^verbatim>\<open>ValueError\<close>; \<^verbatim>\<open>_assess_risk_evaluation\<close> has no
  handler and line 136 does not catch it, so it leaves the scorer and the call.
\<close>

theorem text_field_raises:
  "assess_risk_evaluation plain_lib (analyst_with (JStr ''abc'')) officer = Inl ValueError
   \<and> score plain_lib text_dti_envelope return_dict noise = Inl ValueError"
  by (simp add: model_defs input_defs text_dti_envelope_def)

text \<open>
  C4. With a term of zero months the block that assigns \<^verbatim>\<open>monthly_payment\<close> is skipped;
  the risk manager reports a \<^verbatim>\<open>monthly_payment\<close>, so line 234 reads the unbound
  variable. \<^verbatim>\<open>UnboundLocalError\<close> is caught neither on line 239 nor on line 136: the call
  returns no reward.
\<close>

theorem unbound_payment_raises:
  "score plain_lib zero_term_payment_envelope return_dict noise = Inl UnboundLocalError"
  by (simp add: model_defs input_defs zero_term_payment_envelope_def)

text \<open>Where the call does return a scalar, it lies in [0, 1].\<close>

lemma top_level_fields_grows:
  "top_level_fields fs d s = Inr s' \<Longrightarrow> s \<le> s'"
proof (induction fs arbitrary: s)
  case Nil
  then show ?case by simp
next
  case (Cons f fs)
  show ?case
  proof (cases "py_in f d")
    case (Inl e)
    with Cons.prems show ?thesis by simp
  next
    case (Inr b)
    with Cons.prems
    have "top_level_fields fs d (if b then s + 0.2 else s) = Inr s'"
      by simp
    from Cons.IH [OF this] show ?thesis
      by (simp split: if_splits)
  qed
qed

lemma agent_keys_grows:
  "agent_keys as d s = Inr s' \<Longrightarrow> s \<le> s'"
proof (induction as arbitrary: s)
  case Nil
  then show ?case by simp
next
  case (Cons a as)
  show ?case
  proof (cases "agent_is_dict d a")
    case (Inl e)
    with Cons.prems show ?thesis by simp
  next
    case (Inr b)
    with Cons.prems
    have "agent_keys as d (if b then s + 0.13 else s) = Inr s'"
      by simp
    from Cons.IH [OF this] show ?thesis
      by (simp split: if_splits)
  qed
qed

lemma critical_fields_grows:
  "critical_fields agents agent wanted s = Inr s' \<Longrightarrow> s \<le> s'"
  by (auto simp: critical_fields_def andthen_def split: sum.splits if_splits)

lemma andthen_Inr:
  "andthen m k = Inr r \<Longrightarrow> \<exists>v. m = Inr v \<and> k v = Inr r"
  by (cases m) (simp_all add: andthen_def)

lemma check_structure_range:
  assumes "check_structure d = Inr st"
  shows "0 \<le> st \<and> st \<le> 1"
proof -
  from assms [unfolded check_structure_def]
  obtain s1 where
    a: "top_level_fields [''agent_outputs'', ''decision'', ''trajectory_id''] d 0 = Inr s1" and
    r1: "andthen (py_get d ''agent_outputs'' (JDict [])) (\<lambda>agents.
     andthen (agent_keys [''loan_officer'', ''credit_analyst'', ''risk_manager''] agents s1) (\<lambda>s2.
     andthen (critical_fields agents ''loan_officer''
                [''monthly_income'', ''monthly_debts'', ''loan_amount''] s2) (\<lambda>s3.
     andthen (critical_fields agents ''credit_analyst''
                [''dti_ratio'', ''credit_score'', ''risk_assessment''] s3) (\<lambda>s4.
     andthen (critical_fields agents ''risk_manager''
                [''decision'', ''interest_rate''] s4) (\<lambda>s5.
     Inr (min s5 1)))))) = Inr st"
    by (blast dest: andthen_Inr)
  from andthen_Inr [OF r1] obtain agents where
    r2: "andthen (agent_keys [''loan_officer'', ''credit_analyst'', ''risk_manager''] agents s1) (\<lambda>s2.
     andthen (critical_fields agents ''loan_officer''
                [''monthly_income'', ''monthly_debts'', ''loan_amount''] s2) (\<lambda>s3.
     andthen (critical_fields agents ''credit_analyst''
                [''dti_ratio'', ''credit_score'', ''risk_assessment''] s3) (\<lambda>s4.
     andthen (critical_fields agents ''risk_manager''
                [''decision'', ''interest_rate''] s4) (\<lambda>s5.
     Inr (min s5 1))))) = Inr st"
    by blast
  from andthen_Inr [OF r2] obtain s2 where
    b: "agent_keys [''loan_officer'', ''credit_analyst'', ''risk_manager''] agents s1 = Inr s2" and
    r3: "andthen (critical_fields agents ''loan_officer''
                [''monthly_income'', ''monthly_debts'', ''loan_amount''] s2) (\<lambda>s3.
     andthen (critical_fields agents ''credit_analyst''
                [''dti_ratio'', ''credit_score'', ''risk_assessment''] s3) (\<lambda>s4.
     andthen (critical_fields agents ''risk_manager''
                [''decision'', ''interest_rate''] s4) (\<lambda>s5.
     Inr (min s5 1)))) = Inr st"
    by blast
  from andthen_Inr [OF r3] obtain s3 where
    c: "critical_fields agents ''loan_officer''
          [''monthly_income'', ''monthly_debts'', ''loan_amount''] s2 = Inr s3" and
    r4: "andthen (critical_fields agents ''credit_analyst''
                [''dti_ratio'', ''credit_score'', ''risk_assessment''] s3) (\<lambda>s4.
     andthen (critical_fields agents ''risk_manager''
                [''decision'', ''interest_rate''] s4) (\<lambda>s5.
     Inr (min s5 1))) = Inr st"
    by blast
  from andthen_Inr [OF r4] obtain s4 where
    d: "critical_fields agents ''credit_analyst''
          [''dti_ratio'', ''credit_score'', ''risk_assessment''] s3 = Inr s4" and
    r5: "andthen (critical_fields agents ''risk_manager''
                [''decision'', ''interest_rate''] s4) (\<lambda>s5.
     Inr (min s5 1)) = Inr st"
    by blast
  from andthen_Inr [OF r5] obtain s5 where
    e: "critical_fields agents ''risk_manager'' [''decision'', ''interest_rate''] s4 = Inr s5" and
    f: "Inr (min s5 1) = (Inr st :: exn + real)"
    by blast
  from top_level_fields_grows [OF a] agent_keys_grows [OF b] critical_fields_grows [OF c]
    critical_fields_grows [OF d] critical_fields_grows [OF e] f
  show ?thesis by auto
qed

lemma score_scalar_in_unit_interval:
  assumes "score L response return_dict noise = Inr (Scalar r)"
  shows "0 \<le> r \<and> r \<le> 1"
proof (cases "parse_response L response")
  case (Inl e)
  with assms show ?thesis
    by (simp add: score_def score_body_def andthen_def split: if_splits)
next
  case parsed: (Inr response_data)
  show ?thesis
  proof (cases "check_structure response_data")
    case (Inl e)
    with parsed assms show ?thesis
      by (simp add: score_def score_body_def andthen_def split: if_splits)
  next
    case gate: (Inr structure_score)
    note range = check_structure_range [OF gate]
    show ?thesis
    proof (cases "structure_score < 0.5")
      case True
      with parsed gate assms range show ?thesis
        by (simp add: score_def score_body_def andthen_def sum_structure_only split: if_splits)
    next
      case False
      show ?thesis
      proof (cases "banded_reward L response_data
                      (set_item ''structure'' (structure_score * 0.2) initial_components)")
        case (Inl e)
        with parsed gate False assms show ?thesis
          by (simp add: score_def score_body_def andthen_def split: if_splits)
      next
        case (Inr b)
        with parsed gate False assms show ?thesis
          by (auto simp: score_def score_body_def andthen_def noisy_def split: if_splits)
      qed
    qed
  qed
qed

section \<open>The calculation check without a rate or a term\<close>

text \<open>
  C2, as the code has it. The calculation score is 0, and the scorer returns, whatever
  other keys are present,
  \<^item> when reading the loan officer's \<^verbatim>\<open>monthly_income\<close>, \<^verbatim>\<open>monthly_debts\<close> or
    \<^verbatim>\<open>loan_amount\<close> raises \<^verbatim>\<open>ValueError\<close> (a text that is no number);
  \<^item> when the three are read and the income is not positive, or \<^verbatim>\<open>interest_rate\<close> or
    \<^verbatim>\<open>term_months\<close> is not in the risk manager;
  \<^item> when the income is positive, both keys are present and reading one of them raises
    \<^verbatim>\<open>ValueError\<close>.
  When the income is positive, both are read, the monthly rate or the term is not
  positive, the risk manager reports no \<^verbatim>\<open>monthly_payment\<close> and the analyst's
  \<^verbatim>\<open>risk_assessment\<close> is read as a text, the DTI and payment increments are withheld but
  lines 220 to 231 still run: the score is the interest-rate increment, which is 0 only
  when the rate is not positive.
\<close>

theorem calculations_skipped:
  "(officer_numbers L loan_officer = Inl ValueError
      \<longrightarrow> verify_calculations L loan_officer credit_analyst risk_manager = Inr 0)
   \<and> (officer_numbers L loan_officer = Inr (monthly_income, monthly_debts, loan_amount)
        \<and> (monthly_income \<le> 0
             \<or> py_in ''interest_rate'' risk_manager = Inr False
             \<or> py_in ''term_months'' risk_manager = Inr False)
      \<longrightarrow> verify_calculations L loan_officer credit_analyst risk_manager = Inr 0)
   \<and> (officer_numbers L loan_officer = Inr (monthly_income, monthly_debts, loan_amount)
        \<and> 0 < monthly_income
        \<and> py_in ''interest_rate'' risk_manager = Inr True
        \<and> py_in ''term_months'' risk_manager = Inr True
        \<and> manager_terms L risk_manager = Inl ValueError
      \<longrightarrow> verify_calculations L loan_officer credit_analyst risk_manager = Inr 0)
   \<and> (officer_numbers L loan_officer = Inr (monthly_income, monthly_debts, loan_amount)
        \<and> 0 < monthly_income
        \<and> py_in ''interest_rate'' risk_manager = Inr True
        \<and> py_in ''term_months'' risk_manager = Inr True
        \<and> manager_terms L risk_manager = Inr (rate, months)
        \<and> (rate / 100 / 12 \<le> 0 \<or> months \<le> 0)
        \<and> py_in ''monthly_payment'' risk_manager = Inr False
        \<and> andthen (py_get credit_analyst ''risk_assessment'' (JStr [])) (py_lower L)
             = Inr risk
      \<longrightarrow> verify_calculations L loan_officer credit_analyst risk_manager
            = Inr (if 0 < rate then rate_increment risk rate else 0))"
proof (intro conjI impI)
  assume "officer_numbers L loan_officer = Inl ValueError"
  then show "verify_calculations L loan_officer credit_analyst risk_manager = Inr 0"
    by (simp add: verify_calculations_def calculations_body_def attempt_def)
next
  assume h: "officer_numbers L loan_officer = Inr (monthly_income, monthly_debts, loan_amount)
        \<and> (monthly_income \<le> 0
             \<or> py_in ''interest_rate'' risk_manager = Inr False
             \<or> py_in ''term_months'' risk_manager = Inr False)"
  have container: "py_in ''term_months'' risk_manager = Inr False
    \<Longrightarrow> \<exists>b. py_in ''interest_rate'' risk_manager = Inr b"
    by (cases risk_manager) simp_all
  from h have "calculations_body L loan_officer credit_analyst risk_manager = (0, None)"
    using container
    by (auto simp: calculations_body_def attempt_def)
  then show "verify_calculations L loan_officer credit_analyst risk_manager = Inr 0"
    by (simp add: verify_calculations_def)
next
  assume "officer_numbers L loan_officer = Inr (monthly_income, monthly_debts, loan_amount)
        \<and> 0 < monthly_income
        \<and> py_in ''interest_rate'' risk_manager = Inr True
        \<and> py_in ''term_months'' risk_manager = Inr True
        \<and> manager_terms L risk_manager = Inl ValueError"
  then show "verify_calculations L loan_officer credit_analyst risk_manager = Inr 0"
    by (simp add: verify_calculations_def calculations_body_def attempt_def)
next
  assume h: "officer_numbers L loan_officer = Inr (monthly_income, monthly_debts, loan_amount)
        \<and> 0 < monthly_income
        \<and> py_in ''interest_rate'' risk_manager = Inr True
        \<and> py_in ''term_months'' risk_manager = Inr True
        \<and> manager_terms L risk_manager = Inr (rate, months)
        \<and> (rate / 100 / 12 \<le> 0 \<or> months \<le> 0)
        \<and> py_in ''monthly_payment'' risk_manager = Inr False
        \<and> andthen (py_get credit_analyst ''risk_assessment'' (JStr [])) (py_lower L)
             = Inr risk"
  then have terms: "manager_terms L risk_manager = Inr (rate, months)"
    by simp
  have again: "andthen (py_get risk_manager ''interest_rate'' (JInt 0)) (py_float L) = Inr rate"
  proof (cases "andthen (py_get risk_manager ''interest_rate'' (JInt 0)) (py_float L)")
    case (Inl e)
    with terms show ?thesis
      by (simp add: manager_terms_def andthen_def)
  next
    case (Inr x)
    with terms show ?thesis
      by (cases "andthen (py_get risk_manager ''term_months'' (JInt 0)) (py_int L)")
         (simp_all add: manager_terms_def andthen_def)
  qed
  have skipped: "\<not> (rate / 100 / 12 > 0 \<and> months > 0)"
    using h by auto
  have "rate_check L credit_analyst risk_manager None 0 = (rate_increment risk rate, None)"
    using h again
    by (simp add: rate_check_def payment_check_def attempt_def)
  with h skipped
  have "calculations_body L loan_officer credit_analyst risk_manager
          = (rate_increment risk rate, None)"
    by (auto simp: calculations_body_def attempt_def)
  moreover have "rate_increment risk rate \<le> 1"
    by (simp add: rate_increment_def)
  moreover have "rate_increment risk rate = (if 0 < rate then rate_increment risk rate else 0)"
    by (simp add: rate_increment_def)
  ultimately show "verify_calculations L loan_officer credit_analyst risk_manager
            = Inr (if 0 < rate then rate_increment risk rate else 0)"
    by (simp add: verify_calculations_def)
qed

text \<open>
  C2, as stated, fails: the envelope passes the gate, its term is zero months, and the
  calculation score is 0.25, earned by the rate of 6 on a low risk.
\<close>

theorem calculations_skipped_counterexample:
  "check_structure zero_term_envelope = Inr 1
   \<and> andthen (py_get (manager_with [(''term_months'', JInt 0)]) ''term_months'' (JInt 0))
       (py_int plain_lib) = Inr 0
   \<and> verify_calculations plain_lib officer analyst (manager_with [(''term_months'', JInt 0)])
       = Inr 0.25
   \<and> run_scorers plain_lib zero_term_envelope = Inr (0.25, 0.8, 0.8, 1)"
  by (simp add: model_defs input_defs zero_term_envelope_def)

theorem calculations_skipped_witness:
  "verify_calculations plain_lib text_income_officer analyst manager = Inr 0
   \<and> verify_calculations plain_lib officer analyst manager = Inr 0
   \<and> verify_calculations plain_lib officer analyst
       (manager_with [(''term_months'', JStr ''abc'')]) = Inr 0
   \<and> verify_calculations plain_lib officer analyst (manager_with [(''term_months'', JInt 0)])
       = Inr (rate_increment ''low'' 6)"
proof -
  note all = calculations_skipped [where L = plain_lib and credit_analyst = analyst]
  have text_income: "officer_numbers plain_lib text_income_officer = Inl ValueError"
    by (simp add: model_defs input_defs text_income_officer_def)
  have numbers: "officer_numbers plain_lib officer = Inr (8000, 500, 250000)"
    by (simp add: model_defs input_defs)
  have absent:
    "officer_numbers plain_lib officer = Inr (8000, 500, 250000)
     \<and> ((8000 :: real) \<le> 0
          \<or> py_in ''interest_rate'' manager = Inr False
          \<or> py_in ''term_months'' manager = Inr False)"
    using numbers by (simp add: input_defs)
  have unreadable:
    "officer_numbers plain_lib officer = Inr (8000, 500, 250000)
     \<and> (0 :: real) < 8000
     \<and> py_in ''interest_rate'' (manager_with [(''term_months'', JStr ''abc'')]) = Inr True
     \<and> py_in ''term_months'' (manager_with [(''term_months'', JStr ''abc'')]) = Inr True
     \<and> manager_terms plain_lib (manager_with [(''term_months'', JStr ''abc'')])
          = Inl ValueError"
    using numbers by (simp add: model_defs input_defs)
  have present:
    "officer_numbers plain_lib officer = Inr (8000, 500, 250000)
     \<and> (0 :: real) < 8000
     \<and> py_in ''interest_rate'' (manager_with [(''term_months'', JInt 0)]) = Inr True
     \<and> py_in ''term_months'' (manager_with [(''term_months'', JInt 0)]) = Inr True
     \<and> manager_terms plain_lib (manager_with [(''term_months'', JInt 0)]) = Inr (6, 0)
     \<and> ((6 :: real) / 100 / 12 \<le> 0 \<or> (0 :: int) \<le> 0)
     \<and> py_in ''monthly_payment'' (manager_with [(''term_months'', JInt 0)]) = Inr False
     \<and> andthen (py_get analyst ''risk_assessment'' (JStr [])) (py_lower plain_lib)
         = Inr ''low''"
    using numbers by (simp add: model_defs input_defs)
  have first: "verify_calculations plain_lib text_income_officer analyst manager = Inr 0"
    by (rule mp [OF all [where loan_officer = text_income_officer and risk_manager = manager,
                         THEN conjunct1] text_income])
  have second: "verify_calculations plain_lib officer analyst manager = Inr 0"
    by (rule mp [OF all [where loan_officer = officer and risk_manager = manager,
                         THEN conjunct2, THEN conjunct1] absent])
  have third: "verify_calculations plain_lib officer analyst
                 (manager_with [(''term_months'', JStr ''abc'')]) = Inr 0"
    by (rule mp [OF all [where loan_officer = officer
                           and risk_manager = "manager_with [(''term_months'', JStr ''abc'')]",
                         THEN conjunct2, THEN conjunct2, THEN conjunct1] unreadable])
  have "verify_calculations plain_lib officer analyst (manager_with [(''term_months'', JInt 0)])
       = Inr (if (0 :: real) < 6 then rate_increment ''low'' 6 else 0)"
    by (rule mp [OF all [where loan_officer = officer
                           and risk_manager = "manager_with [(''term_months'', JInt 0)]"
                           and rate = 6 and months = 0 and risk = "''low''",
                         THEN conjunct2, THEN conjunct2, THEN conjunct2] present])
  with first second third show ?thesis by simp
qed

section \<open>Consistency across agents\<close>

lemma collect_amounts_all:
  "list_all (\<lambda>(name, agent_data). reports L key x agent_data) agents
   \<Longrightarrow> collect_amounts L key agents = Inr (replicate (length agents) x)"
  by (induction agents) (auto simp: reports_def)

lemma collect_recommendations_all:
  "list_all (\<lambda>(name, agent_data). recommends L n agent_data) agents
   \<Longrightarrow> collect_recommendations L agents = Inr (replicate (length agents) n)"
  by (induction agents) (auto simp: recommends_def split: sum.splits)

lemma remdups_of_replicate: "remdups (replicate n x) = (if n = 0 then [] else [x])"
  by (induction n) auto

lemma all_same_replicate: "2 \<le> n \<Longrightarrow> all_same (replicate n (x :: real))"
  by (simp add: all_same_def remdups_of_replicate)

lemma list_all_replicate: "list_all (\<lambda>r. r = a) (replicate n a)"
  by (induction n) simp_all

text \<open>
  C9. When every agent of the envelope (three in the scenario, at least two here) reports
  the loan amount 250000 and the income 8000, every recommendation normalizes to
  \<^verbatim>\<open>APPROVED\<close> and the final decision is \<^verbatim>\<open>APPROVED\<close>, the consistency score is
  0.3 + 0.3 + 0.4 = 1.
\<close>

theorem unanimous_consistency:
  assumes "2 \<le> length agents"
      and "list_all (\<lambda>(name, agent_data).
             reports L ''loan_amount'' 250000 agent_data
             \<and> reports L ''monthly_income'' 8000 agent_data
             \<and> recommends L ''APPROVED'' agent_data) agents"
  shows "check_consistency L (JDict agents) (JStr ''APPROVED'') = Inr 1"
proof -
  from assms(2) have
    la: "list_all (\<lambda>(name, agent_data). reports L ''loan_amount'' 250000 agent_data) agents" and
    mi: "list_all (\<lambda>(name, agent_data). reports L ''monthly_income'' 8000 agent_data) agents" and
    re: "list_all (\<lambda>(name, agent_data). recommends L ''APPROVED'' agent_data) agents"
    by (auto simp: list_all_iff)
  from assms(1) have ne: "replicate (length agents) ''APPROVED'' \<noteq> []"
    by auto
  have "recommendation_increment (replicate (length agents) ''APPROVED'') (JStr ''APPROVED'') = 0.4"
    using ne by (simp add: recommendation_increment_def list_all_replicate del: replicate_empty)
  then show ?thesis
    using assms(1)
    by (simp add: check_consistency_def andthen_def collect_amounts_all [OF la]
        collect_amounts_all [OF mi] collect_recommendations_all [OF re] all_same_replicate)
qed

theorem unanimous_consistency_witness:
  "2 \<le> length agreeing_agents
   \<and> check_consistency plain_lib (JDict agreeing_agents) (JStr ''APPROVED'') = Inr 1"
proof -
  have n: "2 \<le> length agreeing_agents"
    by (simp add: agreeing_agents_def)
  have a: "list_all (\<lambda>(name, agent_data).
             reports plain_lib ''loan_amount'' 250000 agent_data
             \<and> reports plain_lib ''monthly_income'' 8000 agent_data
             \<and> recommends plain_lib ''APPROVED'' agent_data) agreeing_agents"
    by (simp add: reports_def recommends_def model_defs input_defs)
  from unanimous_consistency [OF n a] n show ?thesis by simp
qed

text \<open>
  C10. The increment of 0.4 for unanimous recommendations is earned only when the final
  decision is the text \<^verbatim>\<open>APPROVED\<close> or \<^verbatim>\<open>DENIED\<close> as passed in. The recommendations
  \<^verbatim>\<open>Approve\<close>, \<^verbatim>\<open>approved\<close> and \<^verbatim>\<open>APPROVED\<close> all normalize to \<^verbatim>\<open>APPROVED\<close>; with the
  final decision \<^verbatim>\<open>approved\<close> the increment is 0 and the consistency score is 0.6.
\<close>

theorem final_decision_case_sensitive:
  "(recommendation_increment recommendations final_decision = 0.4
      \<longrightarrow> final_decision = JStr ''APPROVED'' \<or> final_decision = JStr ''DENIED'')
   \<and> collect_recommendations plain_lib agreeing_agents
        = Inr [''APPROVED'', ''APPROVED'', ''APPROVED'']
   \<and> recommendation_increment [''APPROVED'', ''APPROVED'', ''APPROVED''] (JStr ''APPROVED'') = 0.4
   \<and> recommendation_increment [''APPROVED'', ''APPROVED'', ''APPROVED''] (JStr ''approved'') = 0
   \<and> check_consistency plain_lib (JDict agreeing_agents) (JStr ''approved'') = Inr 0.6"
proof (intro conjI impI)
  assume "recommendation_increment recommendations final_decision = 0.4"
  then show "final_decision = JStr ''APPROVED'' \<or> final_decision = JStr ''DENIED''"
    by (simp add: recommendation_increment_def split: if_splits)
qed (simp_all add: model_defs input_defs)

theorem final_decision_case_sensitive_witness:
  "recommendation_increment [''DENIED'', ''DENIED''] (JStr ''DENIED'') = 0.4
   \<and> (JStr ''DENIED'' = JStr ''APPROVED'' \<or> JStr ''DENIED'' = JStr ''DENIED'')"
proof -
  have h: "recommendation_increment [''DENIED'', ''DENIED''] (JStr ''DENIED'') = 0.4"
    by (simp add: recommendation_increment_def)
  from final_decision_case_sensitive [of "[''DENIED'', ''DENIED'']" "JStr ''DENIED''"] h
  show ?thesis by blast
qed

end
